theory Spec2Isabelle
  imports Main "HOL-Library.Word"
begin

section \<open>Machine types and constants of main\_enviro.cpp\<close>

text \<open>
  The target is an ESP32: \<open>int16_t\<close> is a 16-bit two's complement value, \<open>uint8_t\<close> an
  8-bit unsigned one, and \<open>int\<close> has 32 bits. Arithmetic on operands narrower than
  \<open>int\<close> is carried out in \<open>int\<close> after the integer promotions.
\<close>

type_synonym int16_t = "16 word"
type_synonym uint8_t = "8 word"
type_synonym c_int = "32 word"

definition DRDY_PIN :: nat where "DRDY_PIN = 25"
definition HEATER_PIN :: nat where "HEATER_PIN = 27"
definition THRESHOLD :: c_int where "THRESHOLD = 10"

section \<open>The shared values\<close>

text \<open>
  Modelled from the spec: the class template \<open>Share<T>\<close> of \<open>taskshare.h\<close>, which
  main\_enviro.cpp includes and which is not among the sources. Section 3 of the spec
  gives a shared value the attributes "current value" and "has been written at least
  once" (and a lock); section 4.1 gives the operations: \<open>write\<close> "overwrites the stored
  value, sets has-value true", and \<open>read(out)\<close> "copies the current value out" and
  "returns whether a value had ever been written". The spec does not fix the current
  value of a slot that was never written (section 3 calls it undefined): it is whatever
  \<open>the_data\<close> holds, and the statements below leave it arbitrary or name it.
  The lock is not modelled: every operation here is one indivisible step.
\<close>

record 'a Share =
  the_data :: 'a
  has_value :: bool

definition Share_put :: "'a \<Rightarrow> 'a Share \<Rightarrow> 'a Share" where
  "Share_put v sh = sh\<lparr>the_data := v, has_value := True\<rparr>"

definition Share_get :: "'a Share \<Rightarrow> 'a \<times> bool" where
  "Share_get sh = (the_data sh, has_value sh)"

section \<open>The program state and its effects on the outside world\<close>

datatype pin_mode = INPUT | OUTPUT

datatype task_fn = Task_WiFi | Task_sensor | Task_heater

text \<open>
  Calls into the Arduino core, FreeRTOS, the thermocouple driver and the web server are
  recorded in the order in which the program issues them. The type \<open>'f\<close> stands for
  the \<open>float\<close> that \<open>readThermocoupleTemperature\<close> returns; the program only passes
  it on to \<open>Serial.println\<close>.
\<close>

datatype 'f effect =
    Serial_begin nat
  | Serial_print string
  | Serial_println string
  | Serial_println_int int
  | Serial_println_float 'f
  | pinMode nat pin_mode
  | digitalWrite nat nat
  | delay nat
  | vTaskDelay nat
  | xTaskCreate task_fn string nat nat
  | setThermocoupleType
  | setConversionMode
  | readThermocoupleTemperature
  | request_send nat string string

text \<open>
  The globals \<open>desired_temp\<close> and \<open>temp_reading\<close>, the files of the SPIFFS file system
  (path to content) and the effects issued so far. At start-up neither shared value has
  been written; what the two slots hold then is given by the two parameters of
  \<open>initial_system\<close>.
\<close>

record 'f system =
  desired_temp :: "int16_t Share"
  temp_reading :: "int16_t Share"
  SPIFFS :: "string \<rightharpoonup> string"
  trace :: "'f effect list"

definition initial_system :: "int16_t \<Rightarrow> int16_t \<Rightarrow> 'f system" where
  "initial_system d0 r0 =
     \<lparr>desired_temp = \<lparr>the_data = d0, has_value = False\<rparr>,
      temp_reading = \<lparr>the_data = r0, has_value = False\<rparr>,
      SPIFFS = Map.empty, trace = []\<rparr>"

definition emit :: "'f effect list \<Rightarrow> 'f system \<Rightarrow> 'f system" where
  "emit es s = s\<lparr>trace := trace s @ es\<rparr>"

section \<open>task\_heater\<close>

text \<open>
  The test \<open>current < (setpoint - THRESHOLD)\<close>: both \<open>int16_t\<close> operands are promoted
  to \<open>int\<close> (sign extension), the subtraction and the signed comparison are done in
  \<open>int\<close>.
\<close>

definition heater_test :: "int16_t \<Rightarrow> int16_t \<Rightarrow> bool" where
  "heater_test sp cur \<longleftrightarrow> (scast cur :: c_int) <s scast sp - THRESHOLD"

text \<open>The two locals of \<open>task_heater\<close>, declared before the loop and kept across cycles.\<close>

record heater_locals =
  setpoint :: int16_t
  current :: int16_t

text \<open>The code before the loop: the initial locals and the pin set-up.\<close>

definition task_heater_entry :: "'f system \<Rightarrow> heater_locals \<times> 'f system" where
  "task_heater_entry s =
     (\<lparr>setpoint = 20, current = 0\<rparr>, emit [pinMode HEATER_PIN OUTPUT] s)"

text \<open>
  One pass through the body of \<open>for(;;)\<close>. The calls \<open>desired_temp.get(setpoint)\<close> and
  \<open>temp_reading.get(current)\<close> pass the local by reference and use no result: the value
  read is stored in the local, and whether a value was ever written is not looked at.
\<close>

definition task_heater_cycle :: "heater_locals \<times> 'f system \<Rightarrow> heater_locals \<times> 'f system" where
  "task_heater_cycle ls =
     (let s = snd ls;
          sp = fst (Share_get (desired_temp s));
          cur = fst (Share_get (temp_reading s));
          s1 = (if heater_test sp cur
                then emit [digitalWrite HEATER_PIN 1] s
                else emit [digitalWrite HEATER_PIN 0] s)
      in (\<lparr>setpoint = sp, current = cur\<rparr>, emit [vTaskDelay 100] s1))"

text \<open>
  The loop, run for as many cycles as the list is long. Other tasks may run between two
  cycles; the list gives, for every cycle, the contents of the two shared values as the
  cycle's two reads find them.
\<close>

fun task_heater_loop ::
  "(int16_t Share \<times> int16_t Share) list \<Rightarrow> heater_locals \<times> 'f system \<Rightarrow> heater_locals \<times> 'f system"
where
  "task_heater_loop [] ls = ls"
| "task_heater_loop (obs # rest) ls =
     task_heater_loop rest
       (task_heater_cycle (fst ls, (snd ls)\<lparr>desired_temp := fst obs, temp_reading := snd obs\<rparr>))"

text \<open>The levels written to the heater pin, oldest first (1 is ON, 0 is OFF).\<close>

fun heater_commands :: "'f effect list \<Rightarrow> nat list" where
  "heater_commands [] = []"
| "heater_commands (digitalWrite pin v # es) =
     (if pin = HEATER_PIN then v # heater_commands es else heater_commands es)"
| "heater_commands (e # es) = heater_commands es"

section \<open>task\_sensor\<close>

text \<open>
  Where the task stands: at its first statement, in the \<open>while (1) delay(10)\<close> loop
  entered when \<open>therm1.begin()\<close> fails, or in the polling loop with the local \<open>count\<close>.
  \<open>count\<close> is an \<open>int\<close> that is reset once it has passed 200, so it never overflows.
\<close>

datatype sensor_pc = Sensor_entry | Sensor_halted | Sensor_polling int

text \<open>
  What the hardware answers when the task asks: the result of \<open>therm1.begin()\<close>, the
  level of the data-ready pin (\<open>True\<close> is high: no conversion ready yet) and the value
  that \<open>readThermocoupleTemperature\<close> returns.
\<close>

record 'f sensor_env =
  begin_ok :: bool
  drdy_high :: bool
  temperature :: 'f

text \<open>
  One step is one question to the hardware: the start of the task up to the decision
  on \<open>begin\<close>, one \<open>delay(10)\<close> of the halt loop, or one \<open>digitalRead(DRDY_PIN)\<close> of the
  polling loop with all that follows it until the next read.
\<close>

fun task_sensor_step :: "'f sensor_env \<Rightarrow> sensor_pc \<times> 'f system \<Rightarrow> sensor_pc \<times> 'f system" where
  "task_sensor_step env (Sensor_entry, s) =
     (if \<not> begin_ok env
      then (Sensor_halted,
            emit [pinMode DRDY_PIN INPUT, Serial_println ''Could not initialize thermocouple.''] s)
      else (Sensor_polling 0,
            emit [pinMode DRDY_PIN INPUT, setThermocoupleType, setConversionMode] s))"
| "task_sensor_step env (Sensor_halted, s) = (Sensor_halted, emit [delay 10] s)"
| "task_sensor_step env (Sensor_polling n, s) =
     (if drdy_high env
      then (if n > 200 then (Sensor_polling 0, emit [Serial_print ''.''] s)
            else (Sensor_polling (n + 1), s))
      else (Sensor_polling 0,
            emit [readThermocoupleTemperature, Serial_println_float (temperature env),
                  vTaskDelay 500] s))"

fun task_sensor_run :: "'f sensor_env list \<Rightarrow> sensor_pc \<times> 'f system \<Rightarrow> sensor_pc \<times> 'f system" where
  "task_sensor_run [] ps = ps"
| "task_sensor_run (env # envs) ps = task_sensor_run envs (task_sensor_step env ps)"

section \<open>task\_WiFi: the request handler and the loop\<close>

text \<open>
  \<open>readFile\<close>: a file that cannot be opened (here: a path with no file) gives the
  empty string and a diagnostic.
  The content is appended character by character as \<open>String((char)file.read())\<close>, which
  is the empty string for a zero byte.
\<close>

definition readFile :: "string \<Rightarrow> 'f system \<Rightarrow> string \<times> 'f system" where
  "readFile path s =
     (case SPIFFS s path of
        None \<Rightarrow> ('''', emit [Serial_println ''- empty file or failed to open file''] s)
      | Some fileContent \<Rightarrow> (filter (\<lambda>c. c \<noteq> CHR 0x00) fileContent, s))"

text \<open>
  \<open>writeFile\<close>: the file system's answer is a parameter, \<open>None\<close> when the file cannot
  be opened for writing, \<open>Some n\<close> when it is opened (and so truncated) and \<open>file.print\<close>
  stores \<open>n\<close> bytes of the message.
\<close>

definition writeFile :: "nat option \<Rightarrow> string \<Rightarrow> string \<Rightarrow> 'f system \<Rightarrow> 'f system" where
  "writeFile fs_answer path message s =
     (case fs_answer of
        None \<Rightarrow> emit [Serial_println ''- failed to open file for writing''] s
      | Some n \<Rightarrow>
          (let s1 = s\<lparr>SPIFFS := (SPIFFS s)(path \<mapsto> take n message)\<rparr>
           in if min n (length message) \<noteq> 0 then s1
              else emit [Serial_println ''- write failed''] s1))"

text \<open>
  The handler of \<open>GET /get\<close>; \<open>param\<close> is the value of the request's \<open>inputInt\<close>
  parameter when it has one. \<open>inputParam\<close> is never assigned and stays empty.
\<close>

definition get_handler :: "nat option \<Rightarrow> string option \<Rightarrow> 'f system \<Rightarrow> 'f system" where
  "get_handler fs_answer param s =
     (let inputParam = '''';
          inputMessage = (case param of Some v \<Rightarrow> v | None \<Rightarrow> ''No message sent'');
          s1 = (case param of
                  Some v \<Rightarrow> writeFile fs_answer ''/inputInt.txt'' v s
                | None \<Rightarrow> s)
      in emit [Serial_println inputMessage,
               request_send 200 ''text/html''
                 (''HTTP GET request sent to your ESP on input field ('' @ inputParam @
                  '') with value: '' @ inputMessage @
                  ''<br><a href='' @ [CHR 0x22] @ ''/'' @ [CHR 0x22] @ ''>Return to Home Page</a>'')] s1)"

text \<open>
  One pass through the body of the task's \<open>for (;;)\<close>. \<open>String::toInt\<close> belongs to
  the Arduino core and is a parameter. The call \<open>desired_temp.put(yourInputInt)\<close> is
  commented out in the source, so the model has no such step.
\<close>

definition task_WiFi_loop_body :: "(string \<Rightarrow> int) \<Rightarrow> 'f system \<Rightarrow> 'f system" where
  "task_WiFi_loop_body toInt s =
     (let r = readFile ''/inputInt.txt'' s;
          yourInputInt = toInt (fst r)
      in emit [Serial_print ''*** Your inputInt: '', Serial_println_int yourInputInt,
               vTaskDelay 5000] (snd r))"

section \<open>Start-up\<close>

text \<open>
  The function \<open>setup\<close> of the source (the name is reserved in Isabelle, hence the
  suffix); \<open>mounted\<close> is the result of \<open>SPIFFS.begin(true)\<close>.
\<close>

definition setup_fn :: "bool \<Rightarrow> 'f system \<Rightarrow> 'f system" where
  "setup_fn mounted s =
     (if \<not> mounted
      then emit [Serial_println ''An Error has occurred while mounting SPIFFS''] s
      else emit [Serial_begin 115200, delay 1000,
                 xTaskCreate Task_WiFi ''WiFi'' 4500 1,
                 xTaskCreate Task_sensor ''sensor'' 1000 1,
                 xTaskCreate Task_heater ''heater'' 1000 3] s)"

text \<open>The tasks handed to \<open>xTaskCreate\<close>, each with its priority, oldest first.\<close>

fun created_tasks :: "'f effect list \<Rightarrow> (task_fn \<times> nat) list" where
  "created_tasks [] = []"
| "created_tasks (xTaskCreate f name stack prio # es) = (f, prio) # created_tasks es"
| "created_tasks (e # es) = created_tasks es"

section \<open>enterStringWithEcho\<close>

text \<open>
  The stream is the list of the results of the successive calls of \<open>stream.read()\<close>
  (\<open>-1\<close> when no character is there). \<open>count\<close> is a \<open>uint8_t\<close>: \<open>count -= 2\<close> and
  \<open>count++\<close> wrap modulo 256, while \<open>count >= (size - 1)\<close> is compared in \<open>int\<close> (the parameter \<open>size\<close> is
  \<open>size_arg\<close> here). A
  write outside the buffer is undefined behaviour in C; the model stops there and reports
  which of the two writes it was and the index: \<open>Terminator_out_of_bounds\<close> for the
  terminating NUL write \<open>buffer[count] = 0\<close> that follows a passed termination test and
  precedes \<open>return\<close>, \<open>Store_out_of_bounds\<close> for the character store
  \<open>buffer[count++] = ch_in\<close>. When the list is used up the function is still
  waiting for input. The \<open>vTaskDelay (1)\<close> of the branch without a character has no
  effect on the state.
\<close>

record echo_state =
  count :: uint8_t
  buffer :: "uint8_t list"
  echoed :: "uint8_t list"

datatype echo_outcome =
    Returned echo_state
  | Terminator_out_of_bounds nat echo_state
  | Store_out_of_bounds nat echo_state
  | Awaiting_input echo_state

fun enterStringWithEcho_loop :: "int list \<Rightarrow> uint8_t \<Rightarrow> echo_state \<Rightarrow> echo_outcome" where
  "enterStringWithEcho_loop [] size_arg st = Awaiting_input st"
| "enterStringWithEcho_loop (ch_in # stream) size_arg st =
     (if ch_in > 0 then
        (let st1 = st\<lparr>echoed := echoed st @ [word_of_int ch_in]\<rparr> in
         if ch_in = 8 \<and> count st1 \<noteq> 0 then
           enterStringWithEcho_loop stream size_arg (st1\<lparr>count := count st1 - 2\<rparr>)
         else if ch_in = 13 then
           enterStringWithEcho_loop stream size_arg st1
         else if ch_in = 10 \<or> uint (count st1) \<ge> uint size_arg - 1 then
           (if unat (count st1) < length (buffer st1)
            then Returned (st1\<lparr>buffer := (buffer st1)[unat (count st1) := 0]\<rparr>)
            else Terminator_out_of_bounds (unat (count st1)) st1)
         else
           (if unat (count st1) < length (buffer st1)
            then enterStringWithEcho_loop stream size_arg
                   (st1\<lparr>buffer := (buffer st1)[unat (count st1) := word_of_int ch_in],
                        count := count st1 + 1\<rparr>)
            else Store_out_of_bounds (unat (count st1)) st1))
      else enterStringWithEcho_loop stream size_arg st)"

definition enterStringWithEcho :: "int list \<Rightarrow> uint8_t list \<Rightarrow> uint8_t \<Rightarrow> echo_outcome" where
  "enterStringWithEcho stream buf size_arg =
     enterStringWithEcho_loop stream size_arg \<lparr>count = 0, buffer = buf, echoed = []\<rparr>"

section \<open>Properties of task\_heater\<close>

lemma heater_test_iff: "heater_test sp cur \<longleftrightarrow> sint cur < sint sp - 10"
proof -
  have up: "is_up (scast :: int16_t \<Rightarrow> c_int)" by (simp add: is_up)
  have r1: "- (2 ^ 15) \<le> sint sp \<and> sint sp < 2 ^ 15"
    using sint_range_size [of sp] by (simp add: word_size)
  have "sint ((scast sp :: c_int) - THRESHOLD) = sint sp - 10"
    using r1 by (simp add: THRESHOLD_def sint_word_diff sint_up_scast [OF up] signed_take_bit_int_eq_self)
  then show ?thesis
    by (simp add: heater_test_def word_sless_alt sint_up_scast [OF up])
qed

lemma trace_emit: "trace (emit es s) = trace s @ es"
  by (simp add: emit_def)

lemma heater_commands_append:
  "heater_commands (xs @ ys) = heater_commands xs @ heater_commands ys"
  by (induction xs rule: heater_commands.induct) simp_all

lemma task_heater_cycle_commands:
  "heater_commands (trace (snd (task_heater_cycle (l, s)))) =
     heater_commands (trace s) @
     [if heater_test (the_data (desired_temp s)) (the_data (temp_reading s)) then 1 else 0]"
  by (simp add: task_heater_cycle_def Share_get_def Let_def trace_emit heater_commands_append)

lemma task_heater_cycle_locals:
  "fst (task_heater_cycle (l, s)) =
     \<lparr>setpoint = the_data (desired_temp s), current = the_data (temp_reading s)\<rparr>"
  by (simp add: task_heater_cycle_def Share_get_def Let_def)

lemma task_heater_loop_commands:
  "heater_commands (trace (snd (task_heater_loop obs (l, s)))) =
     heater_commands (trace s) @
     map (\<lambda>ob. if heater_test (the_data (fst ob)) (the_data (snd ob)) then 1 else 0) obs"
proof (induction obs arbitrary: l s)
  case Nil
  then show ?case by simp
next
  case (Cons ob obs)
  obtain l' s' where step:
    "task_heater_cycle (l, s\<lparr>desired_temp := fst ob, temp_reading := snd ob\<rparr>) = (l', s')"
    by (cases "task_heater_cycle (l, s\<lparr>desired_temp := fst ob, temp_reading := snd ob\<rparr>)")
  have s': "heater_commands (trace s') = heater_commands (trace s) @
      [if heater_test (the_data (fst ob)) (the_data (snd ob)) then 1 else 0]"
    using task_heater_cycle_commands [of l "s\<lparr>desired_temp := fst ob, temp_reading := snd ob\<rparr>"] step
    by simp
  show ?case
    using Cons.IH [of l' s'] by (simp add: step s')
qed

lemma task_heater_loop_locals:
  "fst (task_heater_loop (obs @ [ob]) ls) =
     \<lparr>setpoint = the_data (fst ob), current = the_data (snd ob)\<rparr>"
proof (induction obs arbitrary: ls)
  case Nil
  show ?case
    using task_heater_cycle_locals [of "fst ls" "(snd ls)\<lparr>desired_temp := fst ob, temp_reading := snd ob\<rparr>"]
    by simp
next
  case (Cons x obs)
  then show ?case by simp
qed

lemma task_heater_entry_commands:
  "heater_commands (trace (snd (task_heater_entry s))) = heater_commands (trace s)"
  by (simp add: task_heater_entry_def trace_emit heater_commands_append)

lemma task_heater_run_commands:
  "heater_commands (trace (snd (task_heater_loop obs (task_heater_entry s)))) =
     heater_commands (trace s) @
     map (\<lambda>ob. if heater_test (the_data (fst ob)) (the_data (snd ob)) then 1 else 0) obs"
proof -
  have e: "task_heater_entry s = (\<lparr>setpoint = 20, current = 0\<rparr>, snd (task_heater_entry s))"
    by (simp add: task_heater_entry_def)
  show ?thesis
    by (subst e, subst task_heater_loop_commands) (simp add: task_heater_entry_commands)
qed

text \<open>
  Claim C1, as amended. In every control cycle, with \<open>S\<close> the setpoint and \<open>R\<close> the
  reading that the two reads deliver, the heater task writes 1 (ON) to the heater pin if
  and only if \<open>R < S - 10\<close> as integers (the subtraction cannot wrap, it is done in
  \<open>int\<close>), and 0 (OFF) otherwise. For the written setpoint 20 the written readings
  5, 9, 10, 11, 25 give ON, ON, OFF, OFF, OFF: the boundary reading 10 gives OFF.
\<close>

theorem heater_on_iff_below_deadband:
  "heater_commands (trace (snd (task_heater_loop obs (task_heater_entry s)))) =
     heater_commands (trace s) @
     map (\<lambda>(d, r). if sint (the_data r) < sint (the_data d) - 10 then 1 else 0) obs
   \<and> heater_commands (trace (snd (task_heater_loop
       (map (\<lambda>R. (Share_put 20 \<lparr>the_data = 0, has_value = False\<rparr>,
                   Share_put R \<lparr>the_data = 0, has_value = False\<rparr>)) [5, 9, 10, 11, 25])
       (task_heater_entry (initial_system 0 0 :: unit system))))) = [1, 1, 0, 0, 0]"
proof
  show "heater_commands (trace (snd (task_heater_loop obs (task_heater_entry s)))) =
     heater_commands (trace s) @
     map (\<lambda>(d, r). if sint (the_data r) < sint (the_data d) - 10 then 1 else 0) obs"
    unfolding task_heater_run_commands by (simp add: heater_test_iff case_prod_beta)
  show "heater_commands (trace (snd (task_heater_loop
       (map (\<lambda>R. (Share_put 20 \<lparr>the_data = 0, has_value = False\<rparr>,
                   Share_put R \<lparr>the_data = 0, has_value = False\<rparr>)) [5, 9, 10, 11, 25])
       (task_heater_entry (initial_system 0 0 :: unit system))))) = [1, 1, 0, 0, 0]"
    unfolding task_heater_run_commands
    by (simp add: Share_put_def heater_test_iff initial_system_def)
qed

text \<open>
  Claim C1 as stated lists the commands ON, ON, ON, OFF, OFF for that scenario. The
  third command, for the reading 10, is OFF in the code.
\<close>

theorem scenario_A_counterexample:
  "heater_commands (trace (snd (task_heater_loop
       (map (\<lambda>R. (Share_put 20 \<lparr>the_data = 0, has_value = False\<rparr>,
                   Share_put R \<lparr>the_data = 0, has_value = False\<rparr>)) [5, 9, 10, 11, 25])
       (task_heater_entry (initial_system 0 0 :: unit system))))) \<noteq> [1, 1, 1, 0, 0]"
  unfolding task_heater_run_commands
  by (simp add: Share_put_def heater_test_iff initial_system_def)

text \<open>
  Claim C4 as stated fails: the setpoint 30 has been written, the reading has never been
  written and its slot holds 0. The read delivers the 0, no test of the has-value flag
  stands before the decision, and \<open>0 < 30 - 10\<close>: the control cycle switches the heater
  ON.
\<close>

theorem unwritten_reading_counterexample:
  "heater_commands (trace (snd (task_heater_loop
       [(Share_put 30 \<lparr>the_data = 0, has_value = False\<rparr>, \<lparr>the_data = 0, has_value = False\<rparr>)]
       (task_heater_entry (initial_system 0 0 :: unit system))))) = [1]"
  unfolding task_heater_run_commands
  by (simp add: Share_put_def heater_test_iff initial_system_def)

text \<open>
  Claim C4, as amended. In every control cycle in which the reading has never been
  written, the heater task decides on the content \<open>g\<close> of the never-written slot as its
  read delivers it, exactly as it decides on a written reading: the heater is switched
  ON if and only if \<open>g < S - 10\<close> for the setpoint \<open>S\<close> that the read of the setpoint
  delivers, and OFF otherwise. Whether the reading was ever written has no influence on
  the command.
\<close>

theorem unwritten_reading_decided_like_written:
  "heater_commands (trace (snd (task_heater_loop
       (map (\<lambda>(d, g). (d, \<lparr>the_data = g, has_value = False\<rparr>)) obs) (task_heater_entry s)))) =
     heater_commands (trace s) @
     map (\<lambda>(d, g). if sint g < sint (the_data d) - 10 then 1 else 0) obs
   \<and> heater_commands (trace (snd (task_heater_loop
       (map (\<lambda>(d, g). (d, \<lparr>the_data = g, has_value = False\<rparr>)) obs) (task_heater_entry s)))) =
     heater_commands (trace (snd (task_heater_loop
       (map (\<lambda>(d, g). (d, Share_put g \<lparr>the_data = g, has_value = False\<rparr>)) obs)
       (task_heater_entry s))))"
  unfolding task_heater_run_commands
  by (simp add: heater_test_iff Share_put_def case_prod_beta comp_def)

text \<open>
  The general form of the defect reported for claim C5: in every control cycle in which
  the setpoint has never been written, the decision is taken with the content \<open>g\<close> of
  the never-written slot, which the read has stored over the local \<open>setpoint\<close>, and not
  with the 20 of the local's initialiser; after the first cycle the local holds that
  content.
\<close>

lemma unwritten_setpoint_replaces_default:
  "heater_commands (trace (snd (task_heater_loop
       (map (\<lambda>(g, r). (\<lparr>the_data = g, has_value = False\<rparr>, r)) obs) (task_heater_entry s)))) =
     heater_commands (trace s) @
     map (\<lambda>(g, r). if sint (the_data r) < sint g - 10 then 1 else 0) obs
   \<and> setpoint (fst (task_heater_loop
       (map (\<lambda>(g, r). (\<lparr>the_data = g, has_value = False\<rparr>, r)) obs @
        [(\<lparr>the_data = g', has_value = False\<rparr>, r')]) (task_heater_entry s))) = g'"
  unfolding task_heater_run_commands task_heater_loop_locals
  by (simp add: heater_test_iff case_prod_beta comp_def)

text \<open>
  Claim C5 at a concrete input: neither shared value has ever been written and both
  slots hold 0; in a second cycle the reading \<open>-15\<close> has been written. The local
  \<open>setpoint\<close> is 20 on entry and 0 after the first read. The first cycle commands OFF
  (\<open>0 < 0 - 10\<close> is false) where the default 20 would command ON (\<open>0 < 20 - 10\<close>); the
  second commands ON (\<open>-15 < 0 - 10\<close>).
\<close>

theorem default_setpoint_overwritten_by_first_read:
  "setpoint (fst (task_heater_entry (initial_system 0 0 :: unit system))) = 20
   \<and> setpoint (fst (task_heater_loop
        [(\<lparr>the_data = 0, has_value = False\<rparr>, \<lparr>the_data = 0, has_value = False\<rparr>)]
        (task_heater_entry (initial_system 0 0 :: unit system)))) = 0
   \<and> heater_commands (trace (snd (task_heater_loop
        [(\<lparr>the_data = 0, has_value = False\<rparr>, \<lparr>the_data = 0, has_value = False\<rparr>),
         (\<lparr>the_data = 0, has_value = False\<rparr>, Share_put (- 15) \<lparr>the_data = 0, has_value = False\<rparr>)]
        (task_heater_entry (initial_system 0 0 :: unit system))))) = [0, 1]
   \<and> heater_test 20 0"
proof (intro conjI)
  show "setpoint (fst (task_heater_entry (initial_system 0 0 :: unit system))) = 20"
    by (simp add: task_heater_entry_def)
  show "setpoint (fst (task_heater_loop
        [(\<lparr>the_data = 0, has_value = False\<rparr>, \<lparr>the_data = 0, has_value = False\<rparr>)]
        (task_heater_entry (initial_system 0 0 :: unit system)))) = 0"
    by (simp add: task_heater_cycle_locals)
  show "heater_commands (trace (snd (task_heater_loop
        [(\<lparr>the_data = 0, has_value = False\<rparr>, \<lparr>the_data = 0, has_value = False\<rparr>),
         (\<lparr>the_data = 0, has_value = False\<rparr>, Share_put (- 15) \<lparr>the_data = 0, has_value = False\<rparr>)]
        (task_heater_entry (initial_system 0 0 :: unit system))))) = [0, 1]"
    unfolding task_heater_run_commands
    by (simp add: Share_put_def heater_test_iff initial_system_def)
  show "heater_test 20 0"
    by (simp add: heater_test_iff)
qed

section \<open>Properties of task\_sensor\<close>

lemma temp_reading_emit: "temp_reading (emit es s) = temp_reading s"
  by (simp add: emit_def)

lemma desired_temp_emit: "desired_temp (emit es s) = desired_temp s"
  by (simp add: emit_def)

lemma emit_emit: "emit es2 (emit es1 s) = emit (es1 @ es2) s"
  by (simp add: emit_def)

lemma task_sensor_step_temp_reading:
  "temp_reading (snd (task_sensor_step env ps)) = temp_reading (snd ps)"
  by (cases "(env, ps)" rule: task_sensor_step.cases) (simp_all add: temp_reading_emit)

lemma task_sensor_run_temp_reading:
  "temp_reading (snd (task_sensor_run envs ps)) = temp_reading (snd ps)"
  by (induction envs arbitrary: ps) (simp_all add: task_sensor_step_temp_reading)

lemma task_sensor_run_halted:
  "task_sensor_run envs (Sensor_halted, s) =
     (Sensor_halted, emit (replicate (length envs) (delay 10)) s)"
proof (induction envs arbitrary: s)
  case Nil
  then show ?case by (simp add: emit_def)
next
  case (Cons env envs)
  then show ?case by (simp add: emit_emit replicate_append_same)
qed

text \<open>
  No step of the sensor task changes \<open>temp_reading\<close>. When the data-ready pin reads
  low, the task reads the thermocouple, prints the value and sleeps for 500 ticks.
\<close>

lemma sensor_prints_and_never_writes:
  "temp_reading (snd (task_sensor_run envs ps)) = temp_reading (snd ps)
   \<and> task_sensor_step \<lparr>begin_ok = b, drdy_high = False, temperature = t\<rparr> (Sensor_polling n, s) =
       (Sensor_polling 0,
        emit [readThermocoupleTemperature, Serial_println_float t, vTaskDelay 500] s)"
  by (simp add: task_sensor_run_temp_reading)

text \<open>
  Claim C2 at a concrete run: the thermocouple initialises; in the first pass through the
  loop the data-ready pin reads low at once, in the second it reads high once and then
  low; the thermocouple returns 25 at both completed conversions. After these two passes
  \<open>temp_reading\<close> is as at start-up, never written: the samples went to the serial
  console only.
\<close>

theorem sensor_run_leaves_reading_unwritten:
  "temp_reading (snd (task_sensor_run
       [\<lparr>begin_ok = True, drdy_high = False, temperature = 25 :: int\<rparr>,
        \<lparr>begin_ok = True, drdy_high = False, temperature = 25\<rparr>,
        \<lparr>begin_ok = True, drdy_high = True, temperature = 25\<rparr>,
        \<lparr>begin_ok = True, drdy_high = False, temperature = 25\<rparr>]
       (Sensor_entry, initial_system 0 0))) = \<lparr>the_data = 0, has_value = False\<rparr>
   \<and> trace (snd (task_sensor_run
       [\<lparr>begin_ok = True, drdy_high = False, temperature = 25 :: int\<rparr>,
        \<lparr>begin_ok = True, drdy_high = False, temperature = 25\<rparr>,
        \<lparr>begin_ok = True, drdy_high = True, temperature = 25\<rparr>,
        \<lparr>begin_ok = True, drdy_high = False, temperature = 25\<rparr>]
       (Sensor_entry, initial_system 0 0))) =
     [pinMode DRDY_PIN INPUT, setThermocoupleType, setConversionMode,
      readThermocoupleTemperature, Serial_println_float 25, vTaskDelay 500,
      readThermocoupleTemperature, Serial_println_float 25, vTaskDelay 500]"
  by (simp add: initial_system_def emit_def)

text \<open>
  Claim C6. When \<open>therm1.begin()\<close> fails, the sensor task prints
  "Could not initialize thermocouple." and from then on only repeats \<open>delay(10)\<close>,
  whatever the hardware does: it stays halted, \<open>temp_reading\<close> is never written and
  the thermocouple is never read.
\<close>

theorem sensor_init_failure_halts:
  "task_sensor_run (\<lparr>begin_ok = False, drdy_high = d, temperature = t\<rparr> # envs) (Sensor_entry, s) =
     (Sensor_halted,
      emit ([pinMode DRDY_PIN INPUT, Serial_println ''Could not initialize thermocouple.''] @
            replicate (length envs) (delay 10)) s)
   \<and> temp_reading (snd (task_sensor_run
         (\<lparr>begin_ok = False, drdy_high = d, temperature = t\<rparr> # envs) (Sensor_entry, s))) =
       temp_reading s
   \<and> readThermocoupleTemperature \<notin> set (drop (length (trace s)) (trace (snd (task_sensor_run
         (\<lparr>begin_ok = False, drdy_high = d, temperature = t\<rparr> # envs) (Sensor_entry, s)))))"
  by (simp add: task_sensor_run_halted emit_emit temp_reading_emit trace_emit)

section \<open>Properties of task\_WiFi\<close>

lemma desired_temp_readFile: "desired_temp (snd (readFile path s)) = desired_temp s"
  by (simp add: readFile_def desired_temp_emit split: option.split)

lemma desired_temp_writeFile: "desired_temp (writeFile a path msg s) = desired_temp s"
  by (simp add: writeFile_def desired_temp_emit Let_def split: option.split)

lemma desired_temp_get_handler: "desired_temp (get_handler a param s) = desired_temp s"
  by (simp add: get_handler_def desired_temp_emit desired_temp_writeFile Let_def split: option.split)

lemma desired_temp_task_WiFi_loop_body: "desired_temp (task_WiFi_loop_body toInt s) = desired_temp s"
  by (simp add: task_WiFi_loop_body_def desired_temp_emit desired_temp_readFile Let_def)

lemma SPIFFS_emit: "SPIFFS (emit es s) = SPIFFS s"
  by (simp add: emit_def)

text \<open>
  Neither the request handler nor the loop of the WiFi task changes \<open>desired_temp\<close>.
  The handler stores the submitted value in \<open>/inputInt.txt\<close>; the loop reads the
  file back, converts it to an integer, prints it and sleeps for 5000 ticks.
\<close>

lemma wifi_stores_and_prints_setpoint:
  "desired_temp (get_handler a param s) = desired_temp s
   \<and> desired_temp (task_WiFi_loop_body toInt s) = desired_temp s
   \<and> SPIFFS (get_handler (Some n) (Some v) s) ''/inputInt.txt'' = Some (take n v)
   \<and> trace (task_WiFi_loop_body toInt (s\<lparr>SPIFFS := (SPIFFS s)(''/inputInt.txt'' \<mapsto> v)\<rparr>)) =
       trace s @ [Serial_print ''*** Your inputInt: '',
                  Serial_println_int (toInt (filter (\<lambda>c. c \<noteq> CHR 0x00) v)), vTaskDelay 5000]"
proof (intro conjI)
  show "desired_temp (get_handler a param s) = desired_temp s"
    by (rule desired_temp_get_handler)
  show "desired_temp (task_WiFi_loop_body toInt s) = desired_temp s"
    by (rule desired_temp_task_WiFi_loop_body)
  show "SPIFFS (get_handler (Some n) (Some v) s) ''/inputInt.txt'' = Some (take n v)"
    by (simp add: get_handler_def writeFile_def Let_def SPIFFS_emit)
  show "trace (task_WiFi_loop_body toInt (s\<lparr>SPIFFS := (SPIFFS s)(''/inputInt.txt'' \<mapsto> v)\<rparr>)) =
       trace s @ [Serial_print ''*** Your inputInt: '',
                  Serial_println_int (toInt (filter (\<lambda>c. c \<noteq> CHR 0x00) v)), vTaskDelay 5000]"
    by (simp add: task_WiFi_loop_body_def readFile_def Let_def trace_emit)
qed

text \<open>
  Claim C3 at a concrete input: a request \<open>GET /get?inputInt=25\<close> is handled, the
  two characters are stored, and the loop of the WiFi task then reads the file and
  obtains 25. \<open>desired_temp\<close> is as at start-up afterwards, never written: the value
  was printed, not put into the shared value.
\<close>

theorem wifi_accepts_setpoint_without_writing_it:
  "desired_temp (task_WiFi_loop_body (\<lambda>content. 25)
       (get_handler (Some 2) (Some ''25'') (initial_system 0 0 :: unit system))) =
     \<lparr>the_data = 0, has_value = False\<rparr>"
  by (simp add: desired_temp_task_WiFi_loop_body desired_temp_get_handler initial_system_def)

section \<open>Properties of start-up\<close>

lemma created_tasks_append:
  "created_tasks (xs @ ys) = created_tasks xs @ created_tasks ys"
  by (induction xs rule: created_tasks.induct) simp_all

text \<open>
  Claim C7. When \<open>SPIFFS.begin(true)\<close> fails, start-up only issues the diagnostic
  and creates no task; when it succeeds, start-up creates the WiFi, sensor and heater
  tasks (with priorities 1, 1 and 3).
\<close>

theorem mount_failure_aborts_startup:
  "setup_fn False s = emit [Serial_println ''An Error has occurred while mounting SPIFFS''] s
   \<and> created_tasks (trace (setup_fn False s)) = created_tasks (trace s)
   \<and> created_tasks (trace (setup_fn True s)) =
       created_tasks (trace s) @ [(Task_WiFi, 1), (Task_sensor, 1), (Task_heater, 3)]"
  by (simp add: setup_fn_def trace_emit created_tasks_append)


section \<open>Properties of enterStringWithEcho\<close>

lemma size_at_least_two:
  assumes sz: "2 \<le> unat (sz :: uint8_t)"
  shows "\<not> uint (0 :: uint8_t) \<ge> uint sz - 1"
proof -
  have "int (unat sz) = uint sz" by simp
  with sz have "2 \<le> uint sz" by linarith
  then show ?thesis by simp
qed

lemma loop_accept:
  assumes ch: "0 < ch" "ch \<noteq> 13" "ch \<noteq> 10" and cnt: "count st = 0" and sz: "2 \<le> unat sz"
    and len: "0 < length (buffer st)"
  shows "enterStringWithEcho_loop (ch # stream) sz st =
     enterStringWithEcho_loop stream sz
       (st\<lparr>echoed := echoed st @ [word_of_int ch],
           buffer := (buffer st)[0 := word_of_int ch], count := 1\<rparr>)"
  using ch cnt len size_at_least_two [OF sz] by (simp add: Let_def)

lemma uint_size_bound: "uint (sz :: uint8_t) - 1 \<le> 254"
  using uint_lt2p [of sz] by simp

lemma loop_terminate_255:
  assumes "0 < ch" "ch \<noteq> 8" "ch \<noteq> 13" "count st = 255"
  shows "enterStringWithEcho_loop (ch # stream) sz st =
     (if 255 < length (buffer st)
      then Returned (st\<lparr>echoed := echoed st @ [word_of_int ch],
                       buffer := (buffer st)[255 := 0]\<rparr>)
      else Terminator_out_of_bounds 255 (st\<lparr>echoed := echoed st @ [word_of_int ch]\<rparr>))"
proof -
  have "uint (255 :: uint8_t) \<ge> uint sz - 1"
    using uint_size_bound [of sz] by simp
  then show ?thesis
    using assms by (simp add: Let_def)
qed

lemma loop_backspace:
  assumes "count st \<noteq> 0"
  shows "enterStringWithEcho_loop (8 # stream) sz st =
     enterStringWithEcho_loop stream sz
       (st\<lparr>echoed := echoed st @ [8], count := count st - 2\<rparr>)"
  using assms by (simp add: Let_def)

text \<open>
  Claim C10. Let \<open>size\<close> be at least 2 and the buffer not empty. After one accepted
  character the counter is 1; a backspace then takes it to 255 (\<open>1 - 2\<close> modulo 256);
  the next character that reaches the termination test (any character code above 0
  other than backspace and carriage return, newline or not) passes it because
  \<open>255 >= size - 1\<close>, so the function takes the terminating branch and writes the NUL
  at index 255: inside a buffer of more than 255 bytes, after which it returns, and
  outside every shorter buffer.
\<close>

theorem backspace_wraps_count_and_overruns:
  assumes size: "2 \<le> unat size_arg"
    and c1: "0 < c1" "c1 \<noteq> 13" "c1 \<noteq> 10"
    and c3: "0 < c3" "c3 \<noteq> 8" "c3 \<noteq> 13"
    and buf: "0 < length buf"
  shows "enterStringWithEcho [c1] buf size_arg =
           Awaiting_input \<lparr>count = 1, buffer = buf[0 := word_of_int c1],
                           echoed = [word_of_int c1]\<rparr>
       \<and> enterStringWithEcho [c1, 8] buf size_arg =
           Awaiting_input \<lparr>count = 255, buffer = buf[0 := word_of_int c1],
                           echoed = [word_of_int c1, 8]\<rparr>
       \<and> enterStringWithEcho [c1, 8, c3] buf size_arg =
           (if 255 < length buf
            then Returned \<lparr>count = 255, buffer = buf[0 := word_of_int c1, 255 := 0],
                           echoed = [word_of_int c1, 8, word_of_int c3]\<rparr>
            else Terminator_out_of_bounds 255
                   \<lparr>count = 255, buffer = buf[0 := word_of_int c1],
                    echoed = [word_of_int c1, 8, word_of_int c3]\<rparr>)"
proof -
  let ?st0 = "\<lparr>count = 0, buffer = buf, echoed = []\<rparr>"
  let ?st1 = "\<lparr>count = 1, buffer = buf[0 := word_of_int c1], echoed = [word_of_int c1]\<rparr>"
  let ?st2 = "\<lparr>count = 255, buffer = buf[0 := word_of_int c1], echoed = [word_of_int c1, 8]\<rparr>"
  have a: "enterStringWithEcho_loop (c1 # stream) size_arg ?st0 =
           enterStringWithEcho_loop stream size_arg ?st1" for stream
    using loop_accept [of c1 ?st0 size_arg stream] c1 size buf by simp
  have b: "enterStringWithEcho_loop (8 # stream) size_arg ?st1 =
           enterStringWithEcho_loop stream size_arg ?st2" for stream
  proof -
    have m: "(- 1 :: uint8_t) = 255" by simp
    show ?thesis
      using loop_backspace [of ?st1 stream size_arg] by (simp add: m)
  qed
  have c: "enterStringWithEcho_loop [c3] size_arg ?st2 =
           (if 255 < length buf
            then Returned \<lparr>count = 255, buffer = buf[0 := word_of_int c1, 255 := 0],
                           echoed = [word_of_int c1, 8, word_of_int c3]\<rparr>
            else Terminator_out_of_bounds 255
                   \<lparr>count = 255, buffer = buf[0 := word_of_int c1],
                    echoed = [word_of_int c1, 8, word_of_int c3]\<rparr>)"
    using loop_terminate_255 [of c3 ?st2 "[]" size_arg] c3 by simp
  show ?thesis
    unfolding enterStringWithEcho_def a b c by simp
qed

text \<open>
  The call \<open>enterStringWithEcho (Serial, essid_buf, 34)\<close> of the WiFi task with its
  36-byte buffer and the input \<open>a\<close>, backspace, \<open>x\<close>: the NUL write at index 255
  falls outside the buffer.
\<close>

theorem backspace_wraps_count_and_overruns_witness:
  "enterStringWithEcho [97] (replicate 36 0) 34 =
     Awaiting_input \<lparr>count = 1, buffer = (replicate 36 0)[0 := 97], echoed = [97]\<rparr>
   \<and> enterStringWithEcho [97, 8] (replicate 36 0) 34 =
     Awaiting_input \<lparr>count = 255, buffer = (replicate 36 0)[0 := 97], echoed = [97, 8]\<rparr>
   \<and> enterStringWithEcho [97, 8, 120] (replicate 36 0) 34 =
     Terminator_out_of_bounds 255 \<lparr>count = 255, buffer = (replicate 36 0)[0 := 97], echoed = [97, 8, 120]\<rparr>"
  using backspace_wraps_count_and_overruns [of 34 97 120 "replicate 36 0"]
  by simp

end
